theory Spec2Isabelle
  imports
    Complex_Main
    "HOL-Library.Sublist"
    "HOL-Library.Char_ord"
    "HOL-Library.List_Lexorder"
begin

section \<open>Universal Model Registry: the tools of \<open>registry.py\<close>\<close>

text \<open>
  The development embeds the four tools of \<open>registry.py\<close> (\<open>list_models\<close>,
  \<open>get_model_info\<close>, \<open>recommend_model\<close>, \<open>check_model_status\<close>) and their two
  rendering helpers. The dataset \<open>MODELS\<close> comes from the module \<open>models_data\<close>, whose
  contents the registry only reads; every function that reads it takes it as an argument.

  Conventions of the embedding:
  \<^item> a Python \<open>str\<close> is a \<open>string\<close>, read as the UTF-8 bytes of the text; substring
    tests and code-point order agree with their byte-wise versions on UTF-8;
  \<^item> \<open>str.lower\<close> is an argument \<open>lower\<close> of every function whose source calls it, so
    that each general statement holds of Python's Unicode lowercasing (and of any other
    function in its place); \<open>ascii_lower\<close>, which agrees with \<open>str.lower\<close> on ASCII
    text, takes its place in the concrete examples, all of which are ASCII;
  \<^item> a price is the decimal written in the dataset. Python stores the nearest double
    and prints that double, which \<open>fmt_2f\<close> follows through \<open>double_of\<close>. A score is
    computed from the decimals in exact rational arithmetic: the rounding of the
    additions is not modelled, and the literal \<open>0.3\<close> is \<open>3 / 10\<close>;
  \<^item> the ordered \<open>dict\<close> \<open>MODELS\<close> is an association list in insertion order;
  \<^item> an exception is a value \<open>Inl e\<close> of the result type \<open>py_error + 'a\<close>.
\<close>

subsection \<open>Strings\<close>

text \<open>
  \<open>ascii_lower\<close> maps \<open>A\<close>..\<open>Z\<close> to \<open>a\<close>..\<open>z\<close> and leaves every other byte alone, as
  \<open>str.lower\<close> does on a text without a character beyond ASCII.
\<close>

definition ascii_lower_char :: "char \<Rightarrow> char" where
  "ascii_lower_char c =
     (let n = (of_char c :: nat) in if 65 \<le> n \<and> n \<le> 90 then char_of (n + 32) else c)"

definition ascii_lower :: "string \<Rightarrow> string" where
  "ascii_lower s = map ascii_lower_char s"

type_synonym lowering = "string \<Rightarrow> string"

text \<open>\<open>contains s sub\<close> is Python's \<open>sub in s\<close> on strings.\<close>

definition contains :: "string \<Rightarrow> string \<Rightarrow> bool" where
  "contains s sub = sublist sub s"

definition nl :: string where
  "nl = [CHR 0x0A]"

text \<open>\<open>join sep xs\<close> is Python's \<open>sep.join(xs)\<close>.\<close>

fun join :: "string \<Rightarrow> string list \<Rightarrow> string" where
  "join sep [] = []"
| "join sep [x] = x"
| "join sep (x # y # ys) = x @ sep @ join sep (y # ys)"

subsection \<open>Number formatting\<close>

definition digit_char :: "nat \<Rightarrow> char" where
  "digit_char d = char_of (48 + d)"

function str_nat :: "nat \<Rightarrow> string" where
  "str_nat n = (if n < 10 then [digit_char n] else str_nat (n div 10) @ [digit_char (n mod 10)])"
  by pat_completeness auto
termination
  by (relation "measure id") auto

text \<open>The format \<open>{n:,}\<close>: decimal digits in groups of three, separated by commas.\<close>

fun group3 :: "string \<Rightarrow> string" where
  "group3 (a # b # c # d # rest) = a # b # c # CHR '','' # group3 (d # rest)"
| "group3 ds = ds"

definition fmt_commas :: "int \<Rightarrow> string" where
  "fmt_commas n =
     (if n < 0 then ''-'' else '''') @ rev (group3 (rev (str_nat (nat \<bar>n\<bar>))))"

text \<open>
  \<open>double_of x\<close> is the IEEE double nearest to \<open>x\<close>, ties to the even mantissa: 53
  bits of mantissa, the exponent bounded below as for subnormal numbers. A result of
  magnitude \<open>2 ^ 1024\<close> or more stands for an infinity.
\<close>

function bit_length :: "int \<Rightarrow> int" where
  "bit_length n = (if n \<le> 0 then 0 else 1 + bit_length (n div 2))"
  by pat_completeness auto
termination
  by (relation "measure nat") auto

definition floor_log2 :: "rat \<Rightarrow> int" where
  "floor_log2 a =
     (let k = bit_length (fst (quotient_of a)) - bit_length (snd (quotient_of a))
      in if power_int 2 k \<le> a then k else k - 1)"

definition round_half_even :: "rat \<Rightarrow> int" where
  "round_half_even y =
     (let f = \<lfloor>y\<rfloor>; r = y - of_int f
      in if r < 1 / 2 then f else if 1 / 2 < r then f + 1 else if even f then f else f + 1)"

definition double_of :: "rat \<Rightarrow> rat" where
  "double_of x =
     (if x = 0 then 0
      else (let e = max (floor_log2 \<bar>x\<bar> - 52) (- 1074)
            in sgn x * of_int (round_half_even (\<bar>x\<bar> / power_int 2 e)) * power_int 2 e))"

text \<open>
  The format \<open>{x:.2f}\<close>: the double that stores \<open>x\<close>, rounded to two decimals with ties
  to the even neighbour, which is how Python prints the exact value of a double.
\<close>

definition fmt_2f :: "rat \<Rightarrow> string" where
  "fmt_2f x =
     (let d = double_of x
      in (if x < 0 then ''-'' else '''')
           @ (if 2 ^ 1024 \<le> \<bar>d\<bar> then ''inf''
              else (let c = nat (round_half_even (\<bar>d\<bar> * 100))
                    in str_nat (c div 100) @ ''.''
                         @ [digit_char (c mod 100 div 10), digit_char (c mod 10)])))"

subsection \<open>The data model\<close>

text \<open>
  One entry of \<open>MODELS\<close>. The tests of the repository require every entry to carry all
  thirteen keys, so an entry is a record; \<open>id_key\<close> is the entry's \<open>"id"\<close> and
  \<open>notes_field\<close> its \<open>"notes"\<close>, which may be \<open>None\<close> or empty: Python treats both as
  false.
\<close>

record model =
  id_key :: string
  display_name :: string
  provider :: string
  context_window :: int
  max_output_tokens :: int
  vision :: bool
  reasoning :: bool
  pricing_input :: rat
  pricing_output :: rat
  knowledge_cutoff :: string
  release_date :: string
  status :: string
  notes_field :: "string option"

type_synonym table = "(string \<times> model) list"

datatype py_error = IndexError

text \<open>\<open>first_item xs\<close> is \<open>xs[0]\<close>, which raises on an empty list.\<close>

definition first_item :: "'a list \<Rightarrow> py_error + 'a" where
  "first_item xs = (case xs of [] \<Rightarrow> Inl IndexError | x # _ \<Rightarrow> Inr x)"

text \<open>The truth value of an optional string argument: \<open>None\<close> and \<open>""\<close> are false.\<close>

definition truthy :: "string option \<Rightarrow> bool" where
  "truthy a = (case a of None \<Rightarrow> False | Some s \<Rightarrow> s \<noteq> [])"

subsection \<open>Helpers: \<open>_format_table\<close> and \<open>_model_detail\<close>\<close>

definition table_header :: "string list" where
  "table_header =
     [''| Model ID | Display Name | Provider | Status | Context | Input $/1M | Output $/1M |'',
      ''|----------|-------------|----------|--------|---------|-----------|-------------|'']"

definition table_row :: "model \<Rightarrow> string" where
  "table_row m =
     ''| '' @ id_key m @ '' | '' @ display_name m @ '' | '' @ provider m @ '' | ''
       @ status m @ '' | '' @ fmt_commas (context_window m) @ '' | $''
       @ fmt_2f (pricing_input m) @ '' | $'' @ fmt_2f (pricing_output m) @ '' |''"

definition format_table :: "model list \<Rightarrow> string" where
  "format_table models =
     (if models = [] then ''No models found matching the criteria.''
      else join nl (table_header @ map table_row models))"

definition detail_caps :: "model \<Rightarrow> string list" where
  "detail_caps m =
     (if vision m then [''Vision''] else []) @ (if reasoning m then [''Reasoning/Thinking''] else [])"

text \<open>The placeholder of an empty \<open>notes\<close> field is an em dash (three bytes in UTF-8).\<close>

definition em_dash :: string where
  "em_dash = [CHR 0xE2, CHR 0x80, CHR 0x94]"

definition notes_or_dash :: "model \<Rightarrow> string" where
  "notes_or_dash m =
     (case notes_field m of None \<Rightarrow> em_dash | Some s \<Rightarrow> if s = [] then em_dash else s)"

definition model_detail :: "model \<Rightarrow> string" where
  "model_detail m =
     (let caps = detail_caps m;
          caps_str = (if caps \<noteq> [] then join '', '' caps else ''None'')
      in join nl
        [''## '' @ display_name m @ '' (`'' @ id_key m @ ''`)'',
         '''',
         ''| Field | Value |'',
         ''|-------|-------|'',
         ''| Provider | '' @ provider m @ '' |'',
         ''| Status | **'' @ status m @ ''** |'',
         ''| Context Window | '' @ fmt_commas (context_window m) @ '' tokens |'',
         ''| Max Output | '' @ fmt_commas (max_output_tokens m) @ '' tokens |'',
         ''| Capabilities | '' @ caps_str @ '' |'',
         ''| Pricing (input) | $'' @ fmt_2f (pricing_input m) @ '' / 1M tokens |'',
         ''| Pricing (output) | $'' @ fmt_2f (pricing_output m) @ '' / 1M tokens |'',
         ''| Knowledge Cutoff | '' @ knowledge_cutoff m @ '' |'',
         ''| Release Date | '' @ release_date m @ '' |'',
         ''| Notes | '' @ notes_or_dash m @ '' |''])"

subsection \<open>\<open>list_models\<close>\<close>

definition list_models ::
  "lowering \<Rightarrow> table \<Rightarrow> string option \<Rightarrow> string option \<Rightarrow> string option \<Rightarrow> py_error + string" where
  "list_models lower MODELS provider_arg status_arg capability =
     (let results = map snd MODELS;
          results =
            (if truthy provider_arg
             then (let p = lower (case provider_arg of Some x \<Rightarrow> x | None \<Rightarrow> [])
                   in filter (\<lambda>m. lower (provider m) = p) results)
             else results);
          results =
            (if truthy status_arg
             then (let s = lower (case status_arg of Some x \<Rightarrow> x | None \<Rightarrow> [])
                   in filter (\<lambda>m. lower (status m) = s) results)
             else results);
          results =
            (if truthy capability
             then (let c = lower (case capability of Some x \<Rightarrow> x | None \<Rightarrow> [])
                   in if c = ''vision'' then filter vision results
                      else if c = ''reasoning'' \<or> c = ''thinking'' then filter reasoning results
                      else results)
             else results)
      in Inr (format_table results))"

subsection \<open>Identifier resolution\<close>

text \<open>
  \<open>get_model_info\<close> and \<open>check_model_status\<close> open with the same lines: the lookup
  \<open>MODELS.get(model_id)\<close> and, when it finds nothing, one loop over \<open>MODELS.items()\<close>
  that stops at the first key satisfying
  \<open>key.lower() == model_id_lower or model_id_lower in key.lower()\<close>.
  \<open>scan_keys\<close> is that loop and \<open>resolve\<close> the whole block.
\<close>

fun scan_keys :: "lowering \<Rightarrow> string \<Rightarrow> table \<Rightarrow> model option" where
  "scan_keys lower model_id_lower [] = None"
| "scan_keys lower model_id_lower ((key, m) # rest) =
     (if lower key = model_id_lower \<or> contains (lower key) model_id_lower then Some m
      else scan_keys lower model_id_lower rest)"

definition resolve :: "lowering \<Rightarrow> table \<Rightarrow> string \<Rightarrow> model option" where
  "resolve lower MODELS model_id =
     (case map_of MODELS model_id of
        Some m \<Rightarrow> Some m
      | None \<Rightarrow> scan_keys lower (lower model_id) MODELS)"

subsection \<open>\<open>get_model_info\<close>\<close>

definition get_model_info :: "lowering \<Rightarrow> table \<Rightarrow> string \<Rightarrow> py_error + string" where
  "get_model_info lower MODELS model_id =
     (case resolve lower MODELS model_id of
        None \<Rightarrow>
          (let known = join '', '' (sort (map fst MODELS))
           in Inr (''Model `'' @ model_id @ ''` not found in registry.'' @ nl @ nl
                     @ ''Known models: '' @ known))
      | Some m \<Rightarrow> Inr (model_detail m))"

subsection \<open>\<open>recommend_model\<close>\<close>

text \<open>
  The body of the scoring loop, one function for each \<open>if\<close> block, in the order of the
  source; each takes the score so far and returns the new one.
\<close>

definition coding_signal :: "string \<Rightarrow> model \<Rightarrow> rat \<Rightarrow> rat" where
  "coding_signal task_lower m score =
     (if contains task_lower ''coding'' \<or> contains task_lower ''code''
      then (let score = (if reasoning m then score + 3 else score)
            in if 200000 \<le> context_window m then score + 1 else score)
      else score)"

definition vision_signal :: "string \<Rightarrow> model \<Rightarrow> rat \<Rightarrow> rat" where
  "vision_signal task_lower m score =
     (if contains task_lower ''vision'' \<or> contains task_lower ''image''
      then (if vision m then score + 4 else score - 10)
      else score)"

definition reasoning_signal :: "string \<Rightarrow> model \<Rightarrow> rat \<Rightarrow> rat" where
  "reasoning_signal task_lower m score =
     (if contains task_lower ''reason'' \<or> contains task_lower ''think''
         \<or> contains task_lower ''math''
      then (if reasoning m then score + 5 else score)
      else score)"

definition long_context_signal :: "string \<Rightarrow> model \<Rightarrow> rat \<Rightarrow> rat" where
  "long_context_signal task_lower m score =
     (if contains task_lower ''long context'' \<or> contains task_lower ''large document''
      then (if 1000000 \<le> context_window m then score + 4
            else if 200000 \<le> context_window m then score + 2 else score)
      else score)"

definition cost_signal :: "string \<Rightarrow> model \<Rightarrow> rat \<Rightarrow> rat" where
  "cost_signal task_lower m score =
     (if contains task_lower ''cheap'' \<or> contains task_lower ''batch''
         \<or> contains task_lower ''cost''
      then score + max 0 (5 - pricing_input m)
      else score)"

definition budget_modifier :: "string \<Rightarrow> model \<Rightarrow> rat \<Rightarrow> rat" where
  "budget_modifier budget m score =
     (if budget = ''cheap''
      then (let score = score + max 0 (3 - pricing_input m)
            in if 5 < pricing_input m then score - 5 else score)
      else if budget = ''unlimited'' then score + min (pricing_input m) 5
      else score)"

definition quality_signal :: "model \<Rightarrow> rat \<Rightarrow> rat" where
  "quality_signal m score = score + min (pricing_input m * (3 / 10)) 2"

definition score_model :: "string \<Rightarrow> string \<Rightarrow> model \<Rightarrow> rat" where
  "score_model task_lower budget m =
     quality_signal m
       (budget_modifier budget m
          (cost_signal task_lower m
             (long_context_signal task_lower m
                (reasoning_signal task_lower m
                   (vision_signal task_lower m
                      (coding_signal task_lower m 0))))))"

text \<open>\<open>(budget or "moderate").lower()\<close>\<close>

definition normalize_budget :: "lowering \<Rightarrow> string option \<Rightarrow> string" where
  "normalize_budget lower budget =
     lower (case budget of None \<Rightarrow> ''moderate'' | Some b \<Rightarrow> if b = [] then ''moderate'' else b)"

definition current_models :: "table \<Rightarrow> model list" where
  "current_models MODELS = filter (\<lambda>m. status m = ''current'') (map snd MODELS)"

definition scored_models :: "lowering \<Rightarrow> table \<Rightarrow> string \<Rightarrow> string option \<Rightarrow> (rat \<times> model) list" where
  "scored_models lower MODELS task budget =
     map (\<lambda>m. (score_model (lower task) (normalize_budget lower budget) m, m))
       (current_models MODELS)"

text \<open>
  \<open>scored.sort(key=lambda x: x[0], reverse=True)\<close>: Python's sort is stable, also with
  \<open>reverse=True\<close>, and so is \<open>sort_key\<close>; descending order is ascending order of the
  negated score.
\<close>

definition ranked_models :: "lowering \<Rightarrow> table \<Rightarrow> string \<Rightarrow> string option \<Rightarrow> (rat \<times> model) list" where
  "ranked_models lower MODELS task budget =
     sort_key (\<lambda>x. - fst x) (scored_models lower MODELS task budget)"

definition top_models :: "lowering \<Rightarrow> table \<Rightarrow> string \<Rightarrow> string option \<Rightarrow> (rat \<times> model) list" where
  "top_models lower MODELS task budget = take 3 (ranked_models lower MODELS task budget)"

definition recommend_caps :: "model \<Rightarrow> string list" where
  "recommend_caps m =
     (if vision m then [''vision''] else []) @ (if reasoning m then [''reasoning''] else [])"

definition recommend_entry :: "nat \<times> rat \<times> model \<Rightarrow> string" where
  "recommend_entry e =
     (case e of (i, score, m) \<Rightarrow>
        (let caps = recommend_caps m;
             cap_str = (if caps \<noteq> [] then join '', '' caps else ''standard'')
         in str_nat i @ ''. **'' @ display_name m @ ''** (`'' @ id_key m @ ''`)'' @ nl
              @ ''   - Provider: '' @ provider m @ '' | Capabilities: '' @ cap_str @ nl
              @ ''   - Pricing: $'' @ fmt_2f (pricing_input m) @ '' / $''
              @ fmt_2f (pricing_output m) @ '' per 1M tokens'' @ nl
              @ ''   - Context: '' @ fmt_commas (context_window m) @ '' tokens'' @ nl))"

definition recommend_lines :: "lowering \<Rightarrow> table \<Rightarrow> string \<Rightarrow> string option \<Rightarrow> string list" where
  "recommend_lines lower MODELS task budget =
     [''## Recommendations for: *'' @ task @ ''*'',
      ''**Budget:** '' @ normalize_budget lower budget,
      '''']
     @ map recommend_entry (enumerate 1 (top_models lower MODELS task budget))"

definition recommend_model ::
  "lowering \<Rightarrow> table \<Rightarrow> string \<Rightarrow> string option \<Rightarrow> py_error + string" where
  "recommend_model lower MODELS task budget =
     Inr (join nl (recommend_lines lower MODELS task budget))"

subsection \<open>\<open>check_model_status\<close>\<close>

definition replacements_for :: "table \<Rightarrow> model \<Rightarrow> model list" where
  "replacements_for MODELS model =
     sort_key (\<lambda>m. \<bar>pricing_input m - pricing_input model\<bar>)
       (filter (\<lambda>m. provider m = provider model \<and> status m = ''current'') (map snd MODELS))"

definition status_report :: "table \<Rightarrow> model \<Rightarrow> py_error + string" where
  "status_report MODELS model =
     (let result = ''**'' @ display_name model @ ''** (`'' @ id_key model @ ''`): status = **''
                     @ status model @ ''**'';
          with_note = (\<lambda>result.
            if truthy (notes_field model)
            then result @ nl @ nl @ ''Note: ''
                   @ (case notes_field model of Some s \<Rightarrow> s | None \<Rightarrow> [])
            else result)
      in if status model = ''legacy'' \<or> status model = ''deprecated''
         then (let replacements = replacements_for MODELS model
               in if replacements \<noteq> []
                  then (case first_item replacements of
                          Inl e \<Rightarrow> Inl e
                        | Inr r \<Rightarrow>
                            Inr (with_note
                                   (result @ nl @ nl @ ''Recommended replacement: **''
                                      @ display_name r @ ''** (`'' @ id_key r @ ''`)'')))
                  else Inr (with_note result))
         else Inr (with_note result))"

definition check_model_status :: "lowering \<Rightarrow> table \<Rightarrow> string \<Rightarrow> py_error + string" where
  "check_model_status lower MODELS model_id =
     (case resolve lower MODELS model_id of
        None \<Rightarrow>
          Inr (''`'' @ model_id @ ''` is **not found** in the registry. ''
                 @ ''It may be misspelled, very old, or not yet tracked.'')
      | Some model \<Rightarrow> status_report MODELS model)"

subsection \<open>\<open>compare_models\<close>\<close>

text \<open>
  Modelled from the spec: \<open>compare_models\<close> is imported from \<open>registry\<close> by the tests
  but is not defined in \<open>registry.py\<close>. The spec requires at least two identifiers and
  otherwise answers with a fixed "at least 2 models required" message; it uses only the
  first five identifiers, and the first identifier that does not resolve ends the call
  with a "not found" message naming it. The layout of a comparison is not described, so
  the renderer is a parameter.
\<close>

definition at_least_2_message :: string where
  "at_least_2_message = ''at least 2 models required''"

definition compare_not_found :: "string \<Rightarrow> string" where
  "compare_not_found model_id = ''Model `'' @ model_id @ ''` not found''"

fun resolve_all :: "lowering \<Rightarrow> table \<Rightarrow> string list \<Rightarrow> string + model list" where
  "resolve_all lower MODELS [] = Inr []"
| "resolve_all lower MODELS (model_id # model_ids) =
     (case resolve lower MODELS model_id of
        None \<Rightarrow> Inl model_id
      | Some m \<Rightarrow>
          (case resolve_all lower MODELS model_ids of
             Inl missing \<Rightarrow> Inl missing
           | Inr ms \<Rightarrow> Inr (m # ms)))"

definition compare_models ::
  "lowering \<Rightarrow> (model list \<Rightarrow> string) \<Rightarrow> table \<Rightarrow> string list \<Rightarrow> py_error + string" where
  "compare_models lower render_comparison MODELS model_ids =
     (if length model_ids < 2 then Inr at_least_2_message
      else (case resolve_all lower MODELS (take 5 model_ids) of
              Inl missing \<Rightarrow> Inr (compare_not_found missing)
            | Inr ms \<Rightarrow> Inr (render_comparison ms)))"

subsection \<open>Example tables\<close>

text \<open>
  The dataset itself is not part of the development. The entries below have the shape
  the tests demand of it and serve as concrete inputs.
\<close>

definition gpt5_mini :: model where
  "gpt5_mini = \<lparr>id_key = ''gpt-5-mini'', display_name = ''GPT-5 Mini'', provider = ''OpenAI'',
     context_window = 400000, max_output_tokens = 128000, vision = True, reasoning = True,
     pricing_input = 1 / 4, pricing_output = 2, knowledge_cutoff = ''2024-05'',
     release_date = ''2025-08'', status = ''current'', notes_field = Some ''Small and fast''\<rparr>"

definition gpt5 :: model where
  "gpt5 = \<lparr>id_key = ''gpt-5'', display_name = ''GPT-5'', provider = ''OpenAI'',
     context_window = 400000, max_output_tokens = 128000, vision = True, reasoning = True,
     pricing_input = 5 / 4, pricing_output = 10, knowledge_cutoff = ''2024-09'',
     release_date = ''2025-08'', status = ''current'', notes_field = None\<rparr>"

definition claude_opus :: model where
  "claude_opus = \<lparr>id_key = ''claude-opus-4-6'', display_name = ''Claude Opus 4.6'',
     provider = ''Anthropic'', context_window = 200000, max_output_tokens = 128000,
     vision = True, reasoning = True, pricing_input = 5, pricing_output = 25,
     knowledge_cutoff = ''2025-05'', release_date = ''2026-02'', status = ''current'',
     notes_field = Some []\<rparr>"

definition gpt4o :: model where
  "gpt4o = \<lparr>id_key = ''gpt-4o'', display_name = ''GPT-4o'', provider = ''OpenAI'',
     context_window = 128000, max_output_tokens = 16384, vision = True, reasoning = False,
     pricing_input = 5 / 2, pricing_output = 10, knowledge_cutoff = ''2023-10'',
     release_date = ''2024-05'', status = ''legacy'', notes_field = Some ''Superseded''\<rparr>"

definition deepseek_chat :: model where
  "deepseek_chat = \<lparr>id_key = ''deepseek-chat'', display_name = ''DeepSeek V3'',
     provider = ''DeepSeek'', context_window = 128000, max_output_tokens = 8192,
     vision = False, reasoning = False, pricing_input = 7 / 25, pricing_output = 21 / 50,
     knowledge_cutoff = ''2024-07'', release_date = ''2025-01'', status = ''current'',
     notes_field = None\<rparr>"

definition sample_table :: table where
  "sample_table =
     [(''gpt-5-mini'', gpt5_mini), (''gpt-5'', gpt5), (''claude-opus-4-6'', claude_opus),
      (''gpt-4o'', gpt4o), (''deepseek-chat'', deepseek_chat)]"

text \<open>
  Two current entries: a vision model without the reasoning flag at 10 per million input
  tokens, and a free text-only reasoning model with a context window of one million.
\<close>

definition vision_basic :: model where
  "vision_basic = \<lparr>id_key = ''vision-basic'', display_name = ''Vision Basic'',
     provider = ''Acme'', context_window = 128000, max_output_tokens = 8192,
     vision = True, reasoning = False, pricing_input = 10, pricing_output = 30,
     knowledge_cutoff = ''2025-01'', release_date = ''2025-06'', status = ''current'',
     notes_field = None\<rparr>"

definition text_reasoner :: model where
  "text_reasoner = \<lparr>id_key = ''text-reasoner'', display_name = ''Text Reasoner'',
     provider = ''Acme'', context_window = 1000000, max_output_tokens = 65536,
     vision = False, reasoning = True, pricing_input = 0, pricing_output = 0,
     knowledge_cutoff = ''2025-01'', release_date = ''2025-06'', status = ''current'',
     notes_field = None\<rparr>"

definition vision_table :: table where
  "vision_table = [(''vision-basic'', vision_basic), (''text-reasoner'', text_reasoner)]"


subsection \<open>Which task signals a task triggers\<close>

text \<open>
  The keyword tests of the five \<open>if\<close> blocks of the scoring loop, named so that a
  statement can say which of them a lowercased task text passes.
  \<open>other_signal_count\<close> counts the blocks other than the vision block that fire.
\<close>

definition triggers_coding :: "string \<Rightarrow> bool" where
  "triggers_coding task_lower =
     (contains task_lower ''coding'' \<or> contains task_lower ''code'')"

definition triggers_vision :: "string \<Rightarrow> bool" where
  "triggers_vision task_lower =
     (contains task_lower ''vision'' \<or> contains task_lower ''image'')"

definition triggers_reasoning :: "string \<Rightarrow> bool" where
  "triggers_reasoning task_lower =
     (contains task_lower ''reason'' \<or> contains task_lower ''think''
      \<or> contains task_lower ''math'')"

definition triggers_long_context :: "string \<Rightarrow> bool" where
  "triggers_long_context task_lower =
     (contains task_lower ''long context'' \<or> contains task_lower ''large document'')"

definition triggers_cost :: "string \<Rightarrow> bool" where
  "triggers_cost task_lower =
     (contains task_lower ''cheap'' \<or> contains task_lower ''batch''
      \<or> contains task_lower ''cost'')"

definition other_signal_count :: "string \<Rightarrow> nat" where
  "other_signal_count task_lower =
     (if triggers_coding task_lower then 1 else 0)
     + (if triggers_reasoning task_lower then 1 else 0)
     + (if triggers_long_context task_lower then 1 else 0)
     + (if triggers_cost task_lower then 1 else 0)"

section \<open>Properties\<close>

subsection \<open>Filtering\<close>

text \<open>
  Claim C9. \<open>list_models\<close> treats an empty string for \<open>provider\<close>, for \<open>status\<close> or for
  \<open>capability\<close> like an absent argument, each on its own and whatever the other two
  arguments are; with all three empty it returns what the call without arguments
  returns, the table of every record in table order.
\<close>

theorem list_models_empty_strings_as_absent:
  "list_models lower MODELS (Some '''') status_arg capability
     = list_models lower MODELS None status_arg capability
   \<and> list_models lower MODELS provider_arg (Some '''') capability
     = list_models lower MODELS provider_arg None capability
   \<and> list_models lower MODELS provider_arg status_arg (Some '''')
     = list_models lower MODELS provider_arg status_arg None
   \<and> list_models lower MODELS (Some '''') (Some '''') (Some '''')
     = list_models lower MODELS None None None
   \<and> list_models lower MODELS None None None = Inr (format_table (map snd MODELS))"
  by (simp add: list_models_def truthy_def)

subsection \<open>No tool raises\<close>

lemma first_item_nonempty: "xs \<noteq> [] \<Longrightarrow> \<exists>x. first_item xs = Inr x"
  by (cases xs) (simp_all add: first_item_def)

lemma status_report_returns: "\<exists>s. status_report MODELS m = Inr s"
proof (cases "replacements_for MODELS m = []")
  case True
  then show ?thesis by (simp add: status_report_def Let_def)
next
  case False
  then obtain r where "first_item (replacements_for MODELS m) = Inr r"
    using first_item_nonempty by blast
  then show ?thesis by (simp add: status_report_def Let_def)
qed

text \<open>
  Claim C4. Each of \<open>list_models\<close>, \<open>get_model_info\<close>, \<open>recommend_model\<close> and
  \<open>check_model_status\<close> returns a text for every argument, whatever bytes the strings
  hold, and never raises. The only partial operation of the four bodies is
  \<open>replacements[0]\<close>, and it is reached on a non-empty list only.
\<close>

theorem public_operations_total:
  "(\<exists>s. list_models lower MODELS provider_arg status_arg capability = Inr s)
   \<and> (\<exists>s. get_model_info lower MODELS model_id = Inr s)
   \<and> (\<exists>s. recommend_model lower MODELS task budget = Inr s)
   \<and> (\<exists>s. check_model_status lower MODELS model_id = Inr s)"
proof -
  have l: "\<exists>s. list_models lower MODELS provider_arg status_arg capability = Inr s"
    by (simp add: list_models_def Let_def)
  have g: "\<exists>s. get_model_info lower MODELS model_id = Inr s"
    by (simp add: get_model_info_def Let_def split: option.split)
  have r: "\<exists>s. recommend_model lower MODELS task budget = Inr s"
    by (simp add: recommend_model_def)
  have c: "\<exists>s. check_model_status lower MODELS model_id = Inr s"
    using status_report_returns by (simp add: check_model_status_def split: option.split)
  from l g r c show ?thesis by blast
qed

subsection \<open>The ranking of \<open>recommend_model\<close>\<close>

lemma set_ranked_models:
  "set (ranked_models lower MODELS task budget) = set (scored_models lower MODELS task budget)"
  by (simp add: ranked_models_def)


lemma scored_entry:
  assumes "e \<in> set (scored_models lower MODELS task budget)"
  shows "snd e \<in> set (current_models MODELS)
         \<and> fst e = score_model (lower task) (normalize_budget lower budget) (snd e)"
  using assms by (auto simp: scored_models_def)

lemma current_models_status: "m \<in> set (current_models MODELS) \<Longrightarrow> status m = ''current''"
  by (simp add: current_models_def)

lemma ranked_descending:
  assumes "i \<le> j" and "j < length (ranked_models lower MODELS task budget)"
  shows "fst (ranked_models lower MODELS task budget ! j)
           \<le> fst (ranked_models lower MODELS task budget ! i)"
proof -
  let ?r = "ranked_models lower MODELS task budget"
  have "sorted (map (\<lambda>x. - fst x) ?r)"
    by (simp add: ranked_models_def)
  then have "map (\<lambda>x. - fst x) ?r ! i \<le> map (\<lambda>x. - fst x) ?r ! j"
    using assms by (simp add: sorted_iff_nth_mono)
  then show ?thesis using assms by simp
qed

text \<open>
  Claim C5. For every task and budget the list \<open>top\<close> that \<open>recommend_model\<close> renders has
  at most three entries, every entry is a record of the table with status \<open>current\<close>
  paired with its score, and the scores do not increase down the list.
\<close>

theorem recommend_at_most_three_current:
  "length (top_models lower MODELS task budget) \<le> 3
   \<and> (\<forall>e \<in> set (top_models lower MODELS task budget).
         status (snd e) = ''current'' \<and> snd e \<in> snd ` set MODELS
         \<and> fst e = score_model (lower task) (normalize_budget lower budget) (snd e))
   \<and> (\<forall>i j. i \<le> j \<and> j < length (top_models lower MODELS task budget) \<longrightarrow>
         fst (top_models lower MODELS task budget ! j)
           \<le> fst (top_models lower MODELS task budget ! i))"
proof (intro conjI ballI allI impI)
  show "length (top_models lower MODELS task budget) \<le> 3"
    by (simp add: top_models_def)
next
  fix e assume "e \<in> set (top_models lower MODELS task budget)"
  then have "e \<in> set (scored_models lower MODELS task budget)"
    using set_ranked_models by (auto simp: top_models_def dest: in_set_takeD)
  then have e: "snd e \<in> set (current_models MODELS)"
    "fst e = score_model (lower task) (normalize_budget lower budget) (snd e)"
    using scored_entry by blast+
  show "status (snd e) = ''current''" using e(1) by (rule current_models_status)
  show "snd e \<in> snd ` set MODELS" using e(1) by (auto simp: current_models_def)
  show "fst e = score_model (lower task) (normalize_budget lower budget) (snd e)"
    by (rule e(2))
next
  fix i j assume ij: "i \<le> j \<and> j < length (top_models lower MODELS task budget)"
  then have "j < length (ranked_models lower MODELS task budget)" "j < 3"
    by (simp_all add: top_models_def)
  then show "fst (top_models lower MODELS task budget ! j)
               \<le> fst (top_models lower MODELS task budget ! i)"
    using ij ranked_descending[of i j lower MODELS task budget] by (simp add: top_models_def)
qed

theorem recommend_at_most_three_current_witness:
  "top_models ascii_lower sample_table ''image'' (Some ''CHEAP'')
     = [(273 / 40, gpt5_mini), (49 / 8, gpt5), (11 / 2, claude_opus)]
   \<and> status gpt5_mini = ''current''
   \<and> fst (top_models ascii_lower sample_table ''image'' (Some ''CHEAP'') ! 2)
       \<le> fst (top_models ascii_lower sample_table ''image'' (Some ''CHEAP'') ! 0)"
proof -
  let ?top = "top_models ascii_lower sample_table ''image'' (Some ''CHEAP'')"
  have top: "?top = [(273 / 40, gpt5_mini), (49 / 8, gpt5), (11 / 2, claude_opus)]"
    by code_simp
  have mem: "(273 / 40, gpt5_mini) \<in> set ?top" and len: "(0::nat) \<le> 2 \<and> 2 < length ?top"
    by (simp_all add: top)
  note inst =
    recommend_at_most_three_current[of ascii_lower sample_table "''image''" "Some ''CHEAP''"]
  from inst mem have "status (snd (273 / 40 :: rat, gpt5_mini)) = ''current''" by blast
  moreover from inst len have "fst (?top ! 2) \<le> fst (?top ! 0)" by blast
  ultimately show ?thesis using top by simp
qed



subsection \<open>Identifier resolution\<close>

text \<open>
  What the resolver computes: the exact key if there is one, and otherwise the first
  key in table order whose lowercased form contains the lowercased query. The equality
  test of the loop adds nothing to its substring test.
\<close>

lemma scan_keys_find:
  "scan_keys lower ql MODELS
     = map_option snd (find (\<lambda>(k, r). contains (lower k) ql) MODELS)"
proof (induction MODELS)
  case Nil
  show ?case by simp
next
  case (Cons a rest)
  obtain k r where a: "a = (k, r)" by (cases a)
  have "lower k = ql \<Longrightarrow> contains (lower k) ql" by (auto simp: contains_def)
  with Cons a show ?case by auto
qed

lemma resolve_one_pass:
  "resolve lower MODELS model_id =
     (case map_of MODELS model_id of
        Some r \<Rightarrow> Some r
      | None \<Rightarrow> map_option snd
          (find (\<lambda>(k, r). contains (lower k) (lower model_id)) MODELS))"
  by (simp add: resolve_def scan_keys_find split: option.split)

text \<open>
  Claim C1 asks for three tiers in strict order: a key that equals the query up to case
  is to be returned, and a key that merely contains the query is never to be preferred
  to it, wherever the two stand in the table. The code tests both conditions on each
  key in turn inside one loop, so the first key passing either test ends the search. On
  the example table the key \<open>gpt-5\<close> equals the query \<open>GPT-5\<close> up to case, yet both
  tools answer with the record of the earlier key \<open>gpt-5-mini\<close>, which only contains
  it.
\<close>

theorem resolve_substring_shadows_exact:
  "map fst sample_table
     = [''gpt-5-mini'', ''gpt-5'', ''claude-opus-4-6'', ''gpt-4o'', ''deepseek-chat'']
   \<and> ascii_lower ''gpt-5'' = ascii_lower ''GPT-5''
   \<and> ascii_lower ''gpt-5-mini'' \<noteq> ascii_lower ''GPT-5''
   \<and> map_of sample_table ''gpt-5'' = Some gpt5
   \<and> resolve ascii_lower sample_table ''GPT-5'' = Some gpt5_mini
   \<and> get_model_info ascii_lower sample_table ''GPT-5'' = Inr (model_detail gpt5_mini)
   \<and> check_model_status ascii_lower sample_table ''GPT-5''
       = status_report sample_table gpt5_mini
   \<and> gpt5_mini \<noteq> gpt5"
proof -
  have k: "map fst sample_table
     = [''gpt-5-mini'', ''gpt-5'', ''claude-opus-4-6'', ''gpt-4o'', ''deepseek-chat'']"
    by (simp add: sample_table_def)
  have a: "ascii_lower ''gpt-5'' = ascii_lower ''GPT-5''" by code_simp
  have a': "ascii_lower ''gpt-5-mini'' \<noteq> ascii_lower ''GPT-5''" by code_simp
  have b: "map_of sample_table ''gpt-5'' = Some gpt5" by (simp add: sample_table_def)
  have c: "resolve ascii_lower sample_table ''GPT-5'' = Some gpt5_mini" by code_simp
  have d: "gpt5_mini \<noteq> gpt5" by (simp add: gpt5_mini_def gpt5_def)
  from k a a' b c d show ?thesis by (simp add: get_model_info_def check_model_status_def)
qed

text \<open>
  Claim C3, as the code has it. For a query that no tier resolves, \<open>get_model_info\<close>
  returns the not-found message followed by the known identifiers in ascending sorted
  order (\<open>sorted(MODELS.keys())\<close>), not in table order, and \<open>check_model_status\<close>
  returns a not-found message that names the query only and lists no identifier.
\<close>

theorem not_found_messages:
  assumes "resolve lower MODELS model_id = None"
  shows "get_model_info lower MODELS model_id =
           Inr (''Model `'' @ model_id @ ''` not found in registry.'' @ nl @ nl
                  @ ''Known models: '' @ join '', '' (sort (map fst MODELS)))
         \<and> check_model_status lower MODELS model_id =
           Inr (''`'' @ model_id @ ''` is **not found** in the registry. ''
                  @ ''It may be misspelled, very old, or not yet tracked.'')"
  using assms by (simp add: get_model_info_def check_model_status_def)

lemma sample_keys_sorted:
  "sort (map fst sample_table)
     = [''claude-opus-4-6'', ''deepseek-chat'', ''gpt-4o'', ''gpt-5'', ''gpt-5-mini'']"
  by code_simp

lemma sample_unknown: "resolve ascii_lower sample_table ''zzz'' = None"
  by code_simp

theorem not_found_messages_witness:
  "resolve ascii_lower sample_table ''zzz'' = None
   \<and> get_model_info ascii_lower sample_table ''zzz'' =
       Inr (''Model `zzz` not found in registry.'' @ nl @ nl
              @ ''Known models: claude-opus-4-6, deepseek-chat, gpt-4o, gpt-5, gpt-5-mini'')"
  using not_found_messages[OF sample_unknown] sample_unknown sample_keys_sorted by simp

text \<open>
  The claim as stated fails twice on the example table: \<open>get_model_info\<close> lists the keys
  sorted, which is not their table order, and the text of \<open>check_model_status\<close> holds
  no key at all.
\<close>

theorem not_found_listing_counterexample:
  "resolve ascii_lower sample_table ''zzz'' = None
   \<and> map fst sample_table
       = [''gpt-5-mini'', ''gpt-5'', ''claude-opus-4-6'', ''gpt-4o'', ''deepseek-chat'']
   \<and> get_model_info ascii_lower sample_table ''zzz'' =
       Inr (''Model `zzz` not found in registry.'' @ nl @ nl
              @ ''Known models: claude-opus-4-6, deepseek-chat, gpt-4o, gpt-5, gpt-5-mini'')
   \<and> check_model_status ascii_lower sample_table ''zzz'' =
       Inr ''`zzz` is **not found** in the registry. It may be misspelled, very old, or not yet tracked.''
   \<and> \<not> contains ''`zzz` is **not found** in the registry. It may be misspelled, very old, or not yet tracked.'' ''gpt-5''"
proof -
  have k: "map fst sample_table
       = [''gpt-5-mini'', ''gpt-5'', ''claude-opus-4-6'', ''gpt-4o'', ''deepseek-chat'']"
    by (simp add: sample_table_def)
  have c: "\<not> contains ''`zzz` is **not found** in the registry. It may be misspelled, very old, or not yet tracked.'' ''gpt-5''"
    by code_simp
  from k c sample_unknown sample_keys_sorted show ?thesis
    by (simp add: get_model_info_def check_model_status_def)
qed

lemma model_detail_starts: "\<exists>t. model_detail m = ''## '' @ t"
  by (simp add: model_detail_def Let_def)

lemma status_report_starts: "\<exists>t. status_report MODELS m = Inr (''**'' @ t)"
proof (cases "replacements_for MODELS m = []")
  case True
  then show ?thesis by (simp add: status_report_def Let_def)
next
  case False
  then obtain r rs where "replacements_for MODELS m = r # rs"
    by (cases "replacements_for MODELS m") auto
  then show ?thesis by (simp add: status_report_def Let_def first_item_def)
qed

text \<open>
  Claim C8. On a table whose first entry is \<open>(key, m)\<close> and which has no empty key (so
  the exact lookup misses and the scan is reached), the empty query resolves to \<open>m\<close>:
  \<open>get_model_info\<close> renders the detail sheet of \<open>m\<close> and \<open>check_model_status\<close> its
  status report, and neither returns its not-found message. Of the lowercasing the
  proof needs only that it maps the empty string to itself.
\<close>

theorem empty_query_resolves_first:
  assumes "MODELS = (key, m) # rest"
    and "'''' \<notin> fst ` set MODELS"
    and "lower '''' = ''''"
  shows "resolve lower MODELS '''' = Some m
         \<and> get_model_info lower MODELS '''' = Inr (model_detail m)
         \<and> check_model_status lower MODELS '''' = status_report MODELS m
         \<and> get_model_info lower MODELS '''' \<noteq>
             Inr (''Model `` not found in registry.'' @ nl @ nl
                    @ ''Known models: '' @ join '', '' (sort (map fst MODELS)))
         \<and> check_model_status lower MODELS '''' \<noteq>
             Inr ''`` is **not found** in the registry. It may be misspelled, very old, or not yet tracked.''"
proof -
  have miss: "map_of MODELS '''' = None"
    using assms(2) by (simp add: map_of_eq_None_iff)
  have "scan_keys lower (lower '''') MODELS = Some m"
    using assms(1,3) by (simp add: contains_def)
  with miss have r: "resolve lower MODELS '''' = Some m"
    by (simp add: resolve_def)
  have g: "get_model_info lower MODELS '''' = Inr (model_detail m)"
    using r by (simp add: get_model_info_def)
  have c: "check_model_status lower MODELS '''' = status_report MODELS m"
    using r by (simp add: check_model_status_def)
  obtain t where t: "model_detail m = ''## '' @ t"
    using model_detail_starts by blast
  obtain u where u: "status_report MODELS m = Inr (''**'' @ u)"
    using status_report_starts by blast
  have g': "get_model_info lower MODELS '''' \<noteq>
             Inr (''Model `` not found in registry.'' @ nl @ nl
                    @ ''Known models: '' @ join '', '' (sort (map fst MODELS)))"
    using g t by simp
  have c': "check_model_status lower MODELS '''' \<noteq>
             Inr ''`` is **not found** in the registry. It may be misspelled, very old, or not yet tracked.''"
    using c u by simp
  from r g c g' c' show ?thesis by blast
qed

theorem empty_query_resolves_first_witness:
  "'''' \<notin> fst ` set sample_table
   \<and> ascii_lower '''' = ''''
   \<and> resolve ascii_lower sample_table '''' = Some gpt5_mini
   \<and> get_model_info ascii_lower sample_table '''' = Inr (model_detail gpt5_mini)
   \<and> check_model_status ascii_lower sample_table '''' =
       Inr (''**GPT-5 Mini** (`gpt-5-mini`): status = **current**'' @ nl @ nl
              @ ''Note: Small and fast'')"
proof -
  have t: "sample_table = (''gpt-5-mini'', gpt5_mini) # tl sample_table"
    by (simp add: sample_table_def)
  have k: "'''' \<notin> fst ` set sample_table"
    by (simp add: sample_table_def)
  have e: "ascii_lower '''' = ''''"
    by (simp add: ascii_lower_def)
  have s: "status_report sample_table gpt5_mini =
       Inr (''**GPT-5 Mini** (`gpt-5-mini`): status = **current**'' @ nl @ nl
              @ ''Note: Small and fast'')"
    by (simp add: status_report_def gpt5_mini_def truthy_def)
  from empty_query_resolves_first[where lower = ascii_lower, OF t k e] k e s
  show ?thesis by simp
qed

subsection \<open>\<open>compare_models\<close>\<close>

text \<open>
  Claim C2. For every list of fewer than two identifiers, the empty list included,
  \<open>compare_models\<close> returns the fixed "at least 2 models required" message as its text
  and does not raise.
\<close>

theorem compare_models_needs_two:
  assumes "length model_ids < 2"
  shows "compare_models lower render_comparison MODELS model_ids = Inr at_least_2_message"
  using assms by (simp add: compare_models_def)

theorem compare_models_needs_two_witness:
  "compare_models ascii_lower (\<lambda>ms. join '', '' (map display_name ms)) sample_table []
     = Inr ''at least 2 models required''
   \<and> compare_models ascii_lower (\<lambda>ms. join '', '' (map display_name ms)) sample_table
       [''gpt-5'']
     = Inr ''at least 2 models required''"
proof -
  have a: "length ([] :: string list) < 2" and b: "length [''gpt-5''] < 2" by simp_all
  from compare_models_needs_two[OF a] compare_models_needs_two[OF b]
  show ?thesis by (simp add: at_least_2_message_def)
qed

subsection \<open>The score\<close>

text \<open>
  Every block after the first adds to the score it receives, so an amount added before
  it can be added after it instead.
\<close>

lemma vision_signal_shift: "vision_signal t m (s + c) = vision_signal t m s + c"
  by (simp add: vision_signal_def)

lemma reasoning_signal_shift: "reasoning_signal t m (s + c) = reasoning_signal t m s + c"
  by (simp add: reasoning_signal_def)

lemma long_context_signal_shift:
  "long_context_signal t m (s + c) = long_context_signal t m s + c"
  by (simp add: long_context_signal_def)

lemma cost_signal_shift: "cost_signal t m (s + c) = cost_signal t m s + c"
  by (simp add: cost_signal_def)

lemma budget_modifier_shift: "budget_modifier b m (s + c) = budget_modifier b m s + c"
  by (simp add: budget_modifier_def Let_def)

lemma quality_signal_shift: "quality_signal m (s + c) = quality_signal m s + c"
  by (simp add: quality_signal_def)

lemmas signal_shifts = vision_signal_shift reasoning_signal_shift long_context_signal_shift
  cost_signal_shift budget_modifier_shift quality_signal_shift

lemma rest_shift:
  "quality_signal m (budget_modifier b m (cost_signal t m (long_context_signal t m
      (reasoning_signal t m (vision_signal t m c)))))
   = quality_signal m (budget_modifier b m (cost_signal t m (long_context_signal t m
      (reasoning_signal t m (vision_signal t m 0))))) + c"
proof -
  have "vision_signal t m c = vision_signal t m (0 + c)" by simp
  also have "\<dots> = vision_signal t m 0 + c" by (rule vision_signal_shift)
  finally show ?thesis by (simp only: signal_shifts)
qed

text \<open>
  Claim C7. For a task whose lowercased text contains \<open>coding\<close> or \<open>code\<close>, the coding
  block adds 3 to a record's score when its reasoning flag is set and 1 more when its
  context window is at least 200,000; the total score is that amount plus what the other
  blocks contribute.
\<close>

theorem coding_signal_effect:
  assumes "contains (lower task) ''coding'' \<or> contains (lower task) ''code''"
  shows "coding_signal (lower task) m score
           = score + (if reasoning m then 3 else 0)
                   + (if 200000 \<le> context_window m then 1 else 0)
         \<and> score_model (lower task) budget m
           = (if reasoning m then 3 else 0) + (if 200000 \<le> context_window m then 1 else 0)
             + quality_signal m (budget_modifier budget m (cost_signal (lower task) m
                 (long_context_signal (lower task) m (reasoning_signal (lower task) m
                    (vision_signal (lower task) m 0)))))"
proof -
  have c: "coding_signal (lower task) m s
           = s + (if reasoning m then 3 else 0)
               + (if 200000 \<le> context_window m then 1 else 0)" for s
    using assms by (simp add: coding_signal_def Let_def)
  have "score_model (lower task) budget m
        = quality_signal m (budget_modifier budget m (cost_signal (lower task) m
            (long_context_signal (lower task) m (reasoning_signal (lower task) m
               (vision_signal (lower task) m 0)))))
          + coding_signal (lower task) m 0"
    unfolding score_model_def by (rule rest_shift)
  then show ?thesis by (simp add: c)
qed

theorem coding_signal_effect_witness:
  "contains (ascii_lower ''Write CODE for me'') ''code''
   \<and> coding_signal (ascii_lower ''Write CODE for me'') gpt5 0 = 4
   \<and> coding_signal (ascii_lower ''Write CODE for me'') gpt4o 0 = 0"
proof -
  have h: "contains (ascii_lower ''Write CODE for me'') ''code''" by code_simp
  have g5: "reasoning gpt5 \<and> 200000 \<le> context_window gpt5"
    by (simp add: gpt5_def)
  have g4: "\<not> reasoning gpt4o \<and> \<not> 200000 \<le> context_window gpt4o"
    by (simp add: gpt4o_def)
  from coding_signal_effect[where lower = ascii_lower and task = "''Write CODE for me''"
         and m = gpt5 and score = 0, OF disjI2[OF h]]
       coding_signal_effect[where lower = ascii_lower and task = "''Write CODE for me''"
         and m = gpt4o and score = 0, OF disjI2[OF h]] h g5 g4
  show ?thesis by simp
qed

subsection \<open>Vision tasks\<close>












text \<open>
  Two other signals are enough to overturn the ranking: with the coding and the cost
  signal and the budget \<open>cheap\<close>, the text-only model collects 2 (coding 4, vision
  \<open>-10\<close>, cost 5, budget 3) and the vision model 1 (vision 4, budget \<open>-5\<close>, quality 2).
\<close>

lemma two_other_signals_overturn:
  "triggers_vision (ascii_lower ''cheap code from an image'')
   \<and> other_signal_count (ascii_lower ''cheap code from an image'') = 2
   \<and> top_models ascii_lower vision_table ''cheap code from an image'' (Some ''cheap'')
       = [(2, text_reasoner), (1, vision_basic)]"
proof -
  have a: "triggers_vision (ascii_lower ''cheap code from an image'')" by code_simp
  have b: "other_signal_count (ascii_lower ''cheap code from an image'') = 2" by code_simp
  have c: "top_models ascii_lower vision_table ''cheap code from an image'' (Some ''cheap'')
       = [(2, text_reasoner), (1, vision_basic)]"
    by code_simp
  from a b c show ?thesis by simp
qed

end
